theory Spec2Isabelle
  imports Main "HOL-Library.Multiset"
begin

section \<open>Curator monitoring: scoring engine and response tracking\<close>

text \<open>
  A shallow embedding of \<^verbatim>\<open>rating_system.py\<close>, \<^verbatim>\<open>discord_bot.py\<close> and the response
  tracking of \<^verbatim>\<open>utils.py\<close>. Tables are lists of rows in the order a query returns
  them, \<^verbatim>\<open>.first()\<close> is the first row of that order that passes the filter, and
  \<^verbatim>\<open>datetime.utcnow()\<close> is an argument \<open>now\<close>. Storage works: a commit that fails
  is rolled back by the \<^verbatim>\<open>except\<close> branch of each operation and leaves the tables as
  they were, which is the case of no event here.
\<close>

subsection \<open>Time\<close>

text \<open>
  A \<^verbatim>\<open>datetime\<close> is a number of microseconds since the epoch (its resolution), a
  \<^verbatim>\<open>timedelta\<close> a number of microseconds.
\<close>

type_synonym timestamp = int

definition usec_per_second :: int where
  "usec_per_second = 1000000"

definition usec_per_day :: int where
  "usec_per_day = 86400 * usec_per_second"

text \<open>\<^verbatim>\<open>datetime.min\<close> (0001-01-01 00:00:00) and \<^verbatim>\<open>datetime.max\<close> in microseconds.\<close>

definition datetime_min :: timestamp where
  "datetime_min = - 62135596800 * usec_per_second"

definition datetime_max :: timestamp where
  "datetime_max = 253402300799 * usec_per_second + 999999"

text \<open>
  \<^verbatim>\<open>end_date - timedelta(days=days)\<close>: \<^verbatim>\<open>timedelta\<close> raises OverflowError beyond
  999999999 days, and the subtraction raises it when the date leaves the range of
  \<^verbatim>\<open>datetime\<close>. \<open>None\<close> is the raise.
\<close>

definition minus_days :: "timestamp \<Rightarrow> int \<Rightarrow> timestamp option" where
  "minus_days end_date days =
     (if \<bar>days\<bar> > 999999999 then None
      else let start_date = end_date - days * usec_per_day
           in if start_date < datetime_min \<or> datetime_max < start_date then None
              else Some start_date)"

text \<open>\<^verbatim>\<open>int.bit_length()\<close>: the number of binary digits of the absolute value.\<close>

function bit_length :: "int \<Rightarrow> nat" where
  "bit_length n = (if n = 0 then 0 else Suc (bit_length (\<bar>n\<bar> div 2)))"
  by pat_completeness auto
termination
  by (relation "measure (\<lambda>n. nat \<bar>n\<bar>)") auto

declare bit_length.simps [simp del]

text \<open>
  \<^verbatim>\<open>delta.total_seconds()\<close> is the float nearest to the quotient of the microseconds
  by a million (a division of integers, correctly rounded, ties to even), and \<^verbatim>\<open>int\<close>
  truncates it. For \<open>a\<close> microseconds, at least a million, let \<open>2 ^ e\<close> be the power of
  two at or below the quotient: a float of that size is a multiple \<open>k\<close> of
  \<open>2 ^ e / 2 ^ 52\<close>, and the nearest one has for \<open>k\<close> the rounded quotient of
  \<open>a * 2 ^ 52\<close> by \<open>1000000 * 2 ^ e\<close>. (Up to \<open>2 ^ 34\<close> seconds the result is the
  truncated quotient; beyond, a quotient just below a whole second is rounded up to
  it.)
\<close>

definition float_seconds_floor :: "int \<Rightarrow> int" where
  "float_seconds_floor a =
     (if a < 1000000 then 0
      else let e = bit_length (a div 1000000) - 1;
               num = a * 2 ^ 52;
               den = 1000000 * 2 ^ e;
               q = num div den;
               r = num mod den;
               k = (if 2 * r < den then q
                    else if den < 2 * r then q + 1
                    else if even q then q else q + 1)
           in (k * 2 ^ e) div 2 ^ 52)"

text \<open>\<^verbatim>\<open>int(delta.total_seconds())\<close>, for a \<^verbatim>\<open>timedelta\<close> of \<open>delta\<close> microseconds.\<close>

definition int_total_seconds :: "int \<Rightarrow> int" where
  "int_total_seconds delta =
     (if 0 \<le> delta then float_seconds_floor delta
      else - float_seconds_floor (- delta))"

text \<open>
  A \<^verbatim>\<open>datetime\<close> is aware (it has a time zone) or naive, and the difference of an
  aware and a naive one raises TypeError; \<open>None\<close> is the raise. The flags say which
  operand is aware. The \<^verbatim>\<open>created_at\<close> of a Discord message is aware (in discord.py
  2, which the \<^verbatim>\<open>message_content\<close> intent of the bot needs), \<^verbatim>\<open>datetime.utcnow()\<close> is
  naive.
\<close>

definition datetime_minus :: "bool \<Rightarrow> timestamp \<Rightarrow> bool \<Rightarrow> timestamp \<Rightarrow> int option" where
  "datetime_minus aware1 t1 aware2 t2 = (if aware1 = aware2 then Some (t1 - t2) else None)"

definition created_at_aware :: bool where
  "created_at_aware = True"

definition utcnow_aware :: bool where
  "utcnow_aware = False"

subsection \<open>Rows\<close>

text \<open>
  \<^verbatim>\<open>GlobalRatingConfig\<close>, \<^verbatim>\<open>RatingSettings\<close>, \<^verbatim>\<open>Activities\<close>, \<^verbatim>\<open>Curators\<close>: the columns
  the scoring code reads.
\<close>

record global_rating_config =
  activity_points_message :: int
  activity_points_reaction :: int
  activity_points_reply :: int
  activity_points_task_verification :: int
  response_time_good_seconds :: int
  response_time_poor_seconds :: int

record rating_settings =
  rating_name :: string
  min_score :: int
  color :: string

record activity =
  act_curator_id :: nat
  act_type :: string
  act_timestamp :: "timestamp option"

record curator =
  cur_id :: nat
  cur_discord_id :: int
  cur_is_active :: bool

text \<open>
  \<^verbatim>\<open>ResponseTracking\<close>. The row has the columns that \<^verbatim>\<open>discord_bot.py\<close> and
  \<^verbatim>\<open>rating_system.py\<close> read and write; \<^verbatim>\<open>models_old.py\<close> declares an older row,
  without \<open>is_resolved\<close> and the author. Discord ids are integers; the code stores
  and compares their decimal strings, which is the same comparison.
\<close>

record response_tracking =
  rt_id :: nat
  server_id :: nat
  mention_message_id :: int
  mention_timestamp :: timestamp
  mention_author_id :: int
  is_resolved :: bool
  curator_id :: "nat option"
  response_message_id :: "int option"
  response_timestamp :: "timestamp option"
  response_type :: "string option"
  response_time_seconds :: "int option"

subsection \<open>\<^verbatim>\<open>CuratorRatingSystem\<close>\<close>

text \<open>The configuration \<^verbatim>\<open>_load_rating_config\<close> creates when the table is empty.\<close>

definition default_rating_config :: global_rating_config where
  "default_rating_config =
     \<lparr>activity_points_message = 3, activity_points_reaction = 1,
      activity_points_reply = 2, activity_points_task_verification = 5,
      response_time_good_seconds = 60, response_time_poor_seconds = 300\<rparr>"

definition load_rating_config :: "global_rating_config list \<Rightarrow> global_rating_config" where
  "load_rating_config rows = (case rows of [] \<Rightarrow> default_rating_config | config # _ \<Rightarrow> config)"

text \<open>A comparison of a nullable timestamp column with the window: NULL never passes.\<close>

definition in_window :: "timestamp option \<Rightarrow> timestamp \<Rightarrow> timestamp \<Rightarrow> bool" where
  "in_window ts start_date end_date =
     (case ts of None \<Rightarrow> False | Some t \<Rightarrow> start_date \<le> t \<and> t \<le> end_date)"

text \<open>The loop of \<^verbatim>\<open>calculate_response_time_bonus\<close> over the selected responses.\<close>

fun bonus_loop :: "global_rating_config \<Rightarrow> response_tracking list \<Rightarrow> int \<Rightarrow> int" where
  "bonus_loop config [] total_bonus = total_bonus"
| "bonus_loop config (response # responses) total_bonus =
     (let response_time = (case response_time_seconds response of
                             None \<Rightarrow> 0 | Some s \<Rightarrow> (if s = 0 then 0 else s))
      in if response_time \<le> response_time_good_seconds config
           then bonus_loop config responses (total_bonus + 2)
         else if response_time \<le> response_time_poor_seconds config
           then bonus_loop config responses (total_bonus + 0)
         else bonus_loop config responses (total_bonus - 1))"

definition response_query ::
  "response_tracking list \<Rightarrow> nat \<Rightarrow> timestamp \<Rightarrow> timestamp \<Rightarrow> response_tracking list" where
  "response_query table cid start_date end_date =
     filter (\<lambda>r. curator_id r = Some cid \<and> response_timestamp r \<noteq> None
               \<and> in_window (response_timestamp r) start_date end_date) table"

text \<open>
  \<^verbatim>\<open>calculate_response_time_bonus(curator_id, days)\<close>; the \<^verbatim>\<open>except\<close> branch
  returns 0.
\<close>

definition calculate_response_time_bonus ::
  "global_rating_config \<Rightarrow> response_tracking list \<Rightarrow> nat \<Rightarrow> int \<Rightarrow> timestamp \<Rightarrow> int" where
  "calculate_response_time_bonus config table cid days now =
     (case minus_days now days of
        None \<Rightarrow> 0
      | Some start_date \<Rightarrow>
          (let responses = response_query table cid start_date now
           in if responses = [] then 0 else bonus_loop config responses 0))"

record activity_counts =
  count_message :: nat
  count_reaction :: nat
  count_reply :: nat
  count_task_verification :: nat

definition zero_counts :: activity_counts where
  "zero_counts = \<lparr>count_message = 0, count_reaction = 0, count_reply = 0,
                  count_task_verification = 0\<rparr>"

record score_data =
  total_score :: int
  base_score :: int
  response_bonus :: int
  activity_counts :: activity_counts
  period_days :: int

text \<open>The loop of \<^verbatim>\<open>calculate_curator_score\<close> over the selected activities.\<close>

fun score_loop ::
  "global_rating_config \<Rightarrow> activity list \<Rightarrow> int \<Rightarrow> activity_counts \<Rightarrow> int \<times> activity_counts" where
  "score_loop config [] base counts = (base, counts)"
| "score_loop config (a # as) base counts =
     (if act_type a = ''message''
        then score_loop config as (base + activity_points_message config)
               (counts\<lparr>count_message := count_message counts + 1\<rparr>)
      else if act_type a = ''reaction''
        then score_loop config as (base + activity_points_reaction config)
               (counts\<lparr>count_reaction := count_reaction counts + 1\<rparr>)
      else if act_type a = ''reply''
        then score_loop config as (base + activity_points_reply config)
               (counts\<lparr>count_reply := count_reply counts + 1\<rparr>)
      else if act_type a = ''task_verification''
        then score_loop config as (base + activity_points_task_verification config)
               (counts\<lparr>count_task_verification := count_task_verification counts + 1\<rparr>)
      else score_loop config as base counts)"

definition activity_query ::
  "activity list \<Rightarrow> nat \<Rightarrow> timestamp \<Rightarrow> timestamp \<Rightarrow> activity list" where
  "activity_query table cid start_date end_date =
     filter (\<lambda>a. act_curator_id a = cid \<and> in_window (act_timestamp a) start_date end_date) table"

definition calculate_curator_score ::
  "global_rating_config \<Rightarrow> activity list \<Rightarrow> response_tracking list \<Rightarrow> nat \<Rightarrow> int \<Rightarrow> timestamp
     \<Rightarrow> score_data" where
  "calculate_curator_score config acts table cid days now =
     (case minus_days now days of
        None \<Rightarrow>
          \<lparr>total_score = 0, base_score = 0, response_bonus = 0,
           activity_counts = zero_counts, period_days = days\<rparr>
      | Some start_date \<Rightarrow>
          (let activities = activity_query acts cid start_date now;
               (base, counts) = score_loop config activities 0 zero_counts;
               bonus = calculate_response_time_bonus config table cid days now;
               total_sum = base + bonus
           in \<lparr>total_score = max 0 total_sum, base_score = base, response_bonus = bonus,
               activity_counts = counts, period_days = days\<rparr>))"

subsection \<open>Rating bands\<close>

datatype py_error = IndexError

text \<open>
  The rows \<^verbatim>\<open>_load_rating_thresholds\<close> inserts when the table is empty (the Cyrillic
  \<^verbatim>\<open>rating_text\<close> label, which nothing compares, is left out of the row).
\<close>

definition default_ratings :: "rating_settings list" where
  "default_ratings =
     [\<lparr>rating_name = ''excellent'', min_score = 50, color = ''#22c55e''\<rparr>,
      \<lparr>rating_name = ''good'', min_score = 35, color = ''#3b82f6''\<rparr>,
      \<lparr>rating_name = ''normal'', min_score = 20, color = ''#f59e0b''\<rparr>,
      \<lparr>rating_name = ''poor'', min_score = 10, color = ''#ef4444''\<rparr>,
      \<lparr>rating_name = ''terrible'', min_score = 0, color = ''#991b1b''\<rparr>]"

text \<open>\<^verbatim>\<open>RatingSettings.query.order_by(RatingSettings.min_score.desc()).all()\<close>\<close>

definition order_by_min_score_desc :: "rating_settings list \<Rightarrow> rating_settings list" where
  "order_by_min_score_desc rows = sort_key (\<lambda>r. - min_score r) rows"

definition load_rating_thresholds :: "rating_settings list \<Rightarrow> rating_settings list" where
  "load_rating_thresholds rows =
     (let thresholds = order_by_min_score_desc rows
      in if thresholds = [] then order_by_min_score_desc default_ratings else thresholds)"

text \<open>The \<^verbatim>\<open>for threshold in self.rating_thresholds\<close> loop with its \<^verbatim>\<open>break\<close>.\<close>

fun find_rating :: "rating_settings list \<Rightarrow> int \<Rightarrow> rating_settings option" where
  "find_rating [] score = None"
| "find_rating (threshold # thresholds) score =
     (if score \<ge> min_score threshold then Some threshold
      else find_rating thresholds score)"

text \<open>
  The band of a score: the loop, then \<^verbatim>\<open>self.rating_thresholds[-1]\<close>, which raises
  IndexError on an empty list.
\<close>

definition select_rating :: "rating_settings list \<Rightarrow> int \<Rightarrow> py_error + rating_settings" where
  "select_rating thresholds score =
     (case find_rating thresholds score of
        Some rating \<Rightarrow> Inr rating
      | None \<Rightarrow> (if thresholds = [] then Inl IndexError else Inr (last thresholds)))"

record curator_rating =
  cr_rating_name :: string
  cr_rating_color :: string
  cr_score :: int
  cr_score_data :: score_data

definition get_curator_rating ::
  "rating_settings list \<Rightarrow> global_rating_config \<Rightarrow> activity list \<Rightarrow> response_tracking list
     \<Rightarrow> nat \<Rightarrow> int \<Rightarrow> timestamp \<Rightarrow> py_error + curator_rating" where
  "get_curator_rating thresholds config acts table cid days now =
     (let score_data = calculate_curator_score config acts table cid days now;
          score = total_score score_data
      in case select_rating thresholds score of
           Inl e \<Rightarrow> Inl e
         | Inr rating \<Rightarrow>
             Inr \<lparr>cr_rating_name = rating_name rating, cr_rating_color = color rating,
                  cr_score = score, cr_score_data = score_data\<rparr>)"

subsection \<open>Leaderboard\<close>

text \<open>
  An entry of \<^verbatim>\<open>curator_ratings\<close>. (The \<^verbatim>\<open>average_response_time\<close> field, which the
  sort does not read, is left out.)
\<close>

record leaderboard_entry =
  le_curator :: curator
  le_rating :: curator_rating
  le_score :: int

text \<open>The \<^verbatim>\<open>for curator in curators\<close> loop; a raise leaves it.\<close>

fun rate_curators ::
  "rating_settings list \<Rightarrow> global_rating_config \<Rightarrow> activity list \<Rightarrow> response_tracking list
     \<Rightarrow> int \<Rightarrow> timestamp \<Rightarrow> curator list \<Rightarrow> py_error + leaderboard_entry list" where
  "rate_curators thresholds config acts table days now [] = Inr []"
| "rate_curators thresholds config acts table days now (c # cs) =
     (case get_curator_rating thresholds config acts table (cur_id c) days now of
        Inl e \<Rightarrow> Inl e
      | Inr rating_data \<Rightarrow>
          (case rate_curators thresholds config acts table days now cs of
             Inl e \<Rightarrow> Inl e
           | Inr rest \<Rightarrow>
               Inr (\<lparr>le_curator = c, le_rating = rating_data,
                     le_score = cr_score rating_data\<rparr> # rest)))"

text \<open>\<^verbatim>\<open>xs[:limit]\<close>: a negative limit counts from the end.\<close>

definition slice_to :: "'a list \<Rightarrow> int \<Rightarrow> 'a list" where
  "slice_to xs limit =
     (if 0 \<le> limit then take (nat limit) xs
      else take (length xs - nat (- limit)) xs)"

text \<open>
  \<^verbatim>\<open>get_top_curators(limit, days)\<close>. \<^verbatim>\<open>list.sort(key=..., reverse=True)\<close> is a stable
  sort in descending order of the key: rows with equal keys keep their order. The
  \<^verbatim>\<open>except\<close> branch returns the empty list.
\<close>

definition get_top_curators ::
  "rating_settings list \<Rightarrow> global_rating_config \<Rightarrow> activity list \<Rightarrow> response_tracking list
     \<Rightarrow> curator list \<Rightarrow> int \<Rightarrow> int \<Rightarrow> timestamp \<Rightarrow> leaderboard_entry list" where
  "get_top_curators thresholds config acts table curator_table limit days now =
     (let curators = filter cur_is_active curator_table
      in case rate_curators thresholds config acts table days now curators of
           Inl e \<Rightarrow> []
         | Inr curator_ratings \<Rightarrow>
             slice_to (sort_key (\<lambda>x. - le_score x) curator_ratings) limit)"

subsection \<open>Response tracking: \<^verbatim>\<open>CuratorMonitoringBot\<close>\<close>

text \<open>
  \<^verbatim>\<open>DiscordServers\<close> rows and the fields of a Discord message the tracking code reads.
  \<open>msg_reference\<close> is \<^verbatim>\<open>message.reference.message_id\<close>, \<open>None\<close> when the message is
  not a reply.
\<close>

record discord_server =
  srv_id :: nat
  srv_guild_id :: int
  srv_is_active :: bool

record message =
  msg_id :: int
  msg_guild_id :: int
  msg_author_id :: int
  msg_author_bot :: bool
  msg_created_at :: timestamp
  msg_reference :: "int option"

text \<open>
  The \<^verbatim>\<open>notification_timeout\<close> row of \<^verbatim>\<open>BotSettings\<close>: its value is text, and
  \<^verbatim>\<open>int(...)\<close> raises ValueError on text that is no integer.
\<close>

datatype setting_value = Unparsable | Parsed int

text \<open>
  What the bot finds around it. \<open>stored_aware\<close> says how a \<^verbatim>\<open>mention_timestamp\<close> comes
  back from its column: naive from a plain \<^verbatim>\<open>DateTime\<close> (as \<^verbatim>\<open>models_old.py\<close> declares
  it), aware from a column that keeps the time zone.
\<close>

record bot_env =
  servers :: "discord_server list"
  curators :: "curator list"
  timeout_setting :: "setting_value option"
  notification_channel_found :: bool
  stored_aware :: bool

text \<open>
  A notification sent to the curator channel: the record and the server it names. (Its
  text, with the minutes waited, is left out.)
\<close>

record notice =
  notice_tracking_id :: nat
  notice_server_id :: nat

text \<open>
  The state the tracking code changes: the \<^verbatim>\<open>ResponseTracking\<close> table with its
  autoincrement key, the \<^verbatim>\<open>schedule_notification_check\<close> tasks that are asleep (tracking
  id and wake-up time), and the notifications sent so far.
\<close>

record bot_state =
  trackings :: "response_tracking list"
  next_tracking_id :: nat
  checks :: "(nat \<times> timestamp) list"
  notifications :: "notice list"

definition empty_state :: bot_state where
  "empty_state = \<lparr>trackings = [], next_tracking_id = 1, checks = [], notifications = []\<rparr>"

definition get_curator_by_discord_id :: "bot_env \<Rightarrow> int \<Rightarrow> curator option" where
  "get_curator_by_discord_id env discord_id =
     find (\<lambda>c. cur_discord_id c = discord_id \<and> cur_is_active c) (curators env)"

definition get_server_by_guild_id :: "bot_env \<Rightarrow> int \<Rightarrow> discord_server option" where
  "get_server_by_guild_id env guild_id =
     find (\<lambda>s. srv_guild_id s = guild_id \<and> srv_is_active s) (servers env)"

text \<open>
  The timeout \<^verbatim>\<open>schedule_notification_check\<close> reads before it sleeps; \<open>None\<close> is the
  ValueError, which ends the task in its \<^verbatim>\<open>except\<close> branch.
\<close>

definition read_timeout :: "bot_env \<Rightarrow> int option" where
  "read_timeout env =
     (case timeout_setting env of
        None \<Rightarrow> Some 600
      | Some Unparsable \<Rightarrow> None
      | Some (Parsed timeout) \<Rightarrow> Some timeout)"

text \<open>
  \<^verbatim>\<open>create_response_tracking(message, server)\<close>. The new task starts its sleep at
  \<open>now\<close>.
\<close>

definition create_response_tracking ::
  "bot_env \<Rightarrow> bot_state \<Rightarrow> message \<Rightarrow> discord_server \<Rightarrow> timestamp \<Rightarrow> bot_state" where
  "create_response_tracking env st m server now =
     (case find (\<lambda>t. mention_message_id t = msg_id m) (trackings st) of
        Some existing \<Rightarrow> st
      | None \<Rightarrow>
          (let tracking =
                 \<lparr>rt_id = next_tracking_id st, server_id = srv_id server,
                  mention_message_id = msg_id m, mention_timestamp = msg_created_at m,
                  mention_author_id = msg_author_id m, is_resolved = False,
                  curator_id = None, response_message_id = None, response_timestamp = None,
                  response_type = None, response_time_seconds = None\<rparr>
           in st\<lparr>trackings := trackings st @ [tracking],
                 next_tracking_id := next_tracking_id st + 1,
                 checks := (case read_timeout env of
                              None \<Rightarrow> checks st
                            | Some timeout \<Rightarrow>
                                checks st @ [(rt_id tracking, now + timeout * usec_per_second)])\<rparr>))"

text \<open>The row a query's \<^verbatim>\<open>.first()\<close> returned is changed in place.\<close>

fun update_first :: "('a \<Rightarrow> bool) \<Rightarrow> ('a \<Rightarrow> 'a) \<Rightarrow> 'a list \<Rightarrow> 'a list" where
  "update_first P f [] = []"
| "update_first P f (x # xs) = (if P x then f x # xs else x # update_first P f xs)"

text \<open>
  The filter of \<^verbatim>\<open>update_response_tracking\<close>: mentioned within the last two hours,
  unresolved, and joined to a server row of the message's guild. (The function also
  takes the channel id of the message, and then does not use it.)
\<close>

definition two_hours :: int where
  "two_hours = 2 * 3600 * usec_per_second"

definition response_candidate :: "bot_env \<Rightarrow> message \<Rightarrow> timestamp \<Rightarrow> response_tracking \<Rightarrow> bool" where
  "response_candidate env response_message now t =
     (mention_timestamp t \<ge> now - two_hours \<and> is_resolved t = False
      \<and> list_ex (\<lambda>s. srv_id s = server_id t \<and> srv_guild_id s = msg_guild_id response_message)
                 (servers env))"

text \<open>The assignments to the record found, \<open>response_time\<close> being the difference.\<close>

definition record_response ::
  "message \<Rightarrow> curator \<Rightarrow> string \<Rightarrow> int \<Rightarrow> response_tracking \<Rightarrow> response_tracking" where
  "record_response response_message curator rtype response_time tracking =
     tracking\<lparr>curator_id := Some (cur_id curator),
              response_message_id := Some (msg_id response_message),
              response_timestamp := Some (msg_created_at response_message),
              response_type := Some rtype,
              response_time_seconds := Some (int_total_seconds response_time),
              is_resolved := True\<rparr>"

text \<open>
  \<^verbatim>\<open>update_response_tracking(response_message, curator, response_type)\<close>. The difference
  \<^verbatim>\<open>response_message.created_at - tracking.mention_timestamp\<close> comes first; when it
  raises, the \<^verbatim>\<open>except\<close> branch rolls back and the record stays as it was.
\<close>

definition update_response_tracking ::
  "bot_env \<Rightarrow> bot_state \<Rightarrow> message \<Rightarrow> curator \<Rightarrow> string \<Rightarrow> timestamp \<Rightarrow> bot_state" where
  "update_response_tracking env st response_message curator rtype now =
     (case find (response_candidate env response_message now) (trackings st) of
        None \<Rightarrow> st
      | Some tracking \<Rightarrow>
          (case datetime_minus created_at_aware (msg_created_at response_message)
                  (stored_aware env) (mention_timestamp tracking) of
             None \<Rightarrow> st
           | Some response_time \<Rightarrow>
               st\<lparr>trackings :=
                    update_first (response_candidate env response_message now)
                      (record_response response_message curator rtype response_time)
                      (trackings st)\<rparr>))"

text \<open>
  \<^verbatim>\<open>send_notification(tracking)\<close>: nothing is sent when the notification channel or the
  server row is not found, nor when the minutes waited,
  \<^verbatim>\<open>datetime.utcnow() - tracking.mention_timestamp\<close>, raise (the \<^verbatim>\<open>except\<close> branch).
\<close>

definition send_notification ::
  "bot_env \<Rightarrow> bot_state \<Rightarrow> response_tracking \<Rightarrow> timestamp \<Rightarrow> bot_state" where
  "send_notification env st tracking now =
     (if \<not> notification_channel_found env then st
      else case find (\<lambda>s. srv_id s = server_id tracking) (servers env) of
             None \<Rightarrow> st
           | Some server \<Rightarrow>
               (case datetime_minus utcnow_aware now (stored_aware env)
                       (mention_timestamp tracking) of
                  None \<Rightarrow> st
                | Some waited \<Rightarrow>
                    st\<lparr>notifications := notifications st @
                         [\<lparr>notice_tracking_id = rt_id tracking,
                           notice_server_id = srv_id server\<rparr>]\<rparr>))"

text \<open>
  \<^verbatim>\<open>schedule_notification_check(tracking_id)\<close> after its sleep: the task of
  \<open>tracking_id\<close> whose wake-up time has come ends, and notifies when the record is still
  unresolved.
\<close>

definition notification_check :: "bot_env \<Rightarrow> bot_state \<Rightarrow> nat \<Rightarrow> timestamp \<Rightarrow> bot_state" where
  "notification_check env st tracking_id now =
     (case find (\<lambda>(i, wake). i = tracking_id \<and> wake \<le> now) (checks st) of
        None \<Rightarrow> st
      | Some task \<Rightarrow>
          (let st' = st\<lparr>checks := remove1 task (checks st)\<rparr>
           in case find (\<lambda>t. rt_id t = tracking_id) (trackings st') of
                None \<Rightarrow> st'
              | Some tracking \<Rightarrow>
                  if \<not> is_resolved tracking then send_notification env st' tracking now
                  else st'))"

text \<open>
  \<^verbatim>\<open>on_message(message)\<close>, as far as the tracking state goes (activity logging and task
  reports write other tables). \<open>is_help_request\<close> is the result of
  \<^verbatim>\<open>contains_help_keywords\<close> and \<^verbatim>\<open>contains_curator_mention\<close> on the message.
\<close>

definition on_message :: "bot_env \<Rightarrow> bot_state \<Rightarrow> message \<Rightarrow> bool \<Rightarrow> timestamp \<Rightarrow> bot_state" where
  "on_message env st m is_help_request now =
     (if msg_author_bot m then st
      else case get_server_by_guild_id env (msg_guild_id m) of
             None \<Rightarrow> st
           | Some server \<Rightarrow>
               (let st1 = (case get_curator_by_discord_id env (msg_author_id m) of
                             Some curator \<Rightarrow>
                               update_response_tracking env st m curator ''message'' now
                           | None \<Rightarrow> st)
                in if is_help_request then create_response_tracking env st1 m server now
                   else st1))"

text \<open>
  \<^verbatim>\<open>on_reaction_add(reaction, user)\<close>: \<open>m\<close> is \<^verbatim>\<open>reaction.message\<close>, the message
  reacted to.
\<close>

definition on_reaction_add ::
  "bot_env \<Rightarrow> bot_state \<Rightarrow> message \<Rightarrow> int \<Rightarrow> bool \<Rightarrow> timestamp \<Rightarrow> bot_state" where
  "on_reaction_add env st m user_id user_bot now =
     (if user_bot then st
      else case get_server_by_guild_id env (msg_guild_id m) of
             None \<Rightarrow> st
           | Some server \<Rightarrow>
               (case get_curator_by_discord_id env user_id of
                  None \<Rightarrow> st
                | Some curator \<Rightarrow> update_response_tracking env st m curator ''reaction'' now))"

text \<open>The events the bot handles, each with the time it is handled at.\<close>

datatype event =
  Message message bool timestamp
  | ReactionAdd message int bool timestamp
  | Wake nat timestamp

fun step :: "bot_env \<Rightarrow> bot_state \<Rightarrow> event \<Rightarrow> bot_state" where
  "step env st (Message m is_help_request now) = on_message env st m is_help_request now"
| "step env st (ReactionAdd m user_id user_bot now) = on_reaction_add env st m user_id user_bot now"
| "step env st (Wake tracking_id now) = notification_check env st tracking_id now"

definition run :: "bot_env \<Rightarrow> bot_state \<Rightarrow> event list \<Rightarrow> bot_state" where
  "run env st events = foldl (step env) st events"

subsection \<open>Reply matching of \<^verbatim>\<open>utils.py\<close>\<close>




subsection \<open>Reading the loops\<close>

text \<open>The latency and the points the two scoring loops add per row.\<close>

definition latency_of :: "response_tracking \<Rightarrow> int" where
  "latency_of r = (case response_time_seconds r of None \<Rightarrow> 0 | Some s \<Rightarrow> s)"

definition activity_points :: "global_rating_config \<Rightarrow> string \<Rightarrow> int" where
  "activity_points config ty =
     (if ty = ''message'' then activity_points_message config
      else if ty = ''reaction'' then activity_points_reaction config
      else if ty = ''reply'' then activity_points_reply config
      else if ty = ''task_verification'' then activity_points_task_verification config
      else 0)"

text \<open>
  The invariant of the notification tasks: no record has two tasks asleep, no record
  was notified twice, and a record with a task asleep was not notified yet.
\<close>

definition notify_inv :: "bot_state \<Rightarrow> bool" where
  "notify_inv st =
     (distinct (map fst (checks st))
      \<and> distinct (map notice_tracking_id (notifications st))
      \<and> (\<forall>i\<in>set (map fst (checks st)).
            i < next_tracking_id st \<and> i \<notin> set (map notice_tracking_id (notifications st)))
      \<and> (\<forall>i\<in>set (map notice_tracking_id (notifications st)). i < next_tracking_id st))"


subsection \<open>A small installation, for the examples\<close>

text \<open>
  One monitored guild (500), one curator (Discord id 77), no \<^verbatim>\<open>notification_timeout\<close>
  row (so 600 seconds), stored time stamps that come back naive, and a clock that starts
  at 0.
\<close>

definition demo_env :: bot_env where
  "demo_env =
     \<lparr>servers = [\<lparr>srv_id = 1, srv_guild_id = 500, srv_is_active = True\<rparr>],
      curators = [\<lparr>cur_id = 1, cur_discord_id = 77, cur_is_active = True\<rparr>],
      timeout_setting = None, notification_channel_found = True, stored_aware = False\<rparr>"

definition seconds :: "int \<Rightarrow> timestamp" where
  "seconds n = n * usec_per_second"

definition demo_message :: "int \<Rightarrow> int \<Rightarrow> timestamp \<Rightarrow> int option \<Rightarrow> message" where
  "demo_message mid author created reference =
     \<lparr>msg_id = mid, msg_guild_id = 500, msg_author_id = author, msg_author_bot = False,
      msg_created_at = created, msg_reference = reference\<rparr>"

text \<open>A resolved record of curator 1 with the given response time and latency.\<close>

definition demo_response :: "timestamp \<Rightarrow> int option \<Rightarrow> response_tracking" where
  "demo_response responded latency =
     \<lparr>rt_id = 1, server_id = 1, mention_message_id = 1001, mention_timestamp = 0,
      mention_author_id = 42, is_resolved = True, curator_id = Some 1,
      response_message_id = Some 1002, response_timestamp = Some responded,
      response_type = Some ''message'', response_time_seconds = latency\<rparr>"

definition demo_now :: timestamp where
  "demo_now = seconds 1700000000"

definition demo_curators :: "curator list" where
  "demo_curators =
     [\<lparr>cur_id = 2, cur_discord_id = 78, cur_is_active = True\<rparr>,
      \<lparr>cur_id = 1, cur_discord_id = 77, cur_is_active = True\<rparr>,
      \<lparr>cur_id = 3, cur_discord_id = 79, cur_is_active = True\<rparr>]"

section \<open>The scoring engine\<close>

subsection \<open>Response-time adjustment\<close>

lemma bonus_loop_count:
  "bonus_loop config rs acc =
     acc + 2 * int (length (filter (\<lambda>r. latency_of r \<le> response_time_good_seconds config) rs))
         - int (length (filter (\<lambda>r. response_time_good_seconds config < latency_of r
                                   \<and> response_time_poor_seconds config < latency_of r) rs))"
  by (induction rs arbitrary: acc) (auto simp: latency_of_def Let_def split: option.splits)

lemmas clock_defs =
  minus_days_def usec_per_day_def usec_per_second_def datetime_min_def datetime_max_def
  seconds_def demo_now_def

lemma demo_window: "minus_days demo_now 30 = Some (seconds 1697408000)"
  by (simp add: clock_defs)

text \<open>
  C6 (as amended). Over the responses of the window, each response with latency at most
  the good threshold adds 2, each response with latency above both thresholds subtracts
  1, and every other response adds 0: a latency equal to the poor threshold is neutral.
\<close>

theorem response_bonus_thresholds:
  assumes "minus_days now days = Some start_date"
  shows "calculate_response_time_bonus config table cid days now =
           2 * int (length (filter (\<lambda>r. latency_of r \<le> response_time_good_seconds config)
                              (response_query table cid start_date now)))
           - int (length (filter (\<lambda>r. response_time_good_seconds config < latency_of r
                                       \<and> response_time_poor_seconds config < latency_of r)
                              (response_query table cid start_date now)))"
  using assms by (simp add: calculate_response_time_bonus_def Let_def bonus_loop_count)

theorem response_bonus_thresholds_witness:
  "minus_days demo_now 30 = Some (seconds 1697408000)
   \<and> calculate_response_time_bonus default_rating_config
        [demo_response (demo_now - seconds 50) (Some 45),
         demo_response (demo_now - seconds 40) (Some 250),
         demo_response (demo_now - seconds 30) (Some 300),
         demo_response (demo_now - seconds 20) (Some 400)] 1 30 demo_now = 1"
  using response_bonus_thresholds [OF demo_window, of default_rating_config
      "[demo_response (demo_now - seconds 50) (Some 45),
        demo_response (demo_now - seconds 40) (Some 250),
        demo_response (demo_now - seconds 30) (Some 300),
        demo_response (demo_now - seconds 20) (Some 400)]" 1]
  by (simp add: clock_defs response_query_def in_window_def demo_response_def latency_of_def
      default_rating_config_def)

text \<open>
  C6 as stated fails: with the default thresholds a response at exactly 300 seconds adds
  0, not \<open>-1\<close>.
\<close>

theorem poor_threshold_counterexample:
  "calculate_response_time_bonus default_rating_config
     [demo_response (demo_now - seconds 30) (Some 300)] 1 30 demo_now = 0
   \<and> calculate_response_time_bonus default_rating_config
     [demo_response (demo_now - seconds 30) (Some 300)] 1 30 demo_now \<noteq> - 1"
  by (simp add: calculate_response_time_bonus_def clock_defs response_query_def in_window_def
      demo_response_def default_rating_config_def)

lemma bonus_is_loop:
  "minus_days now days = Some start_date \<Longrightarrow>
     calculate_response_time_bonus config table cid days now
       = bonus_loop config (response_query table cid start_date now) 0"
  by (simp add: calculate_response_time_bonus_def Let_def)

lemma bonus_loop_shift: "bonus_loop config rs acc = acc + bonus_loop config rs 0"
  by (simp add: bonus_loop_count [of config rs acc] bonus_loop_count [of config rs 0])

text \<open>
  C10 (as amended). A response in the window whose \<^verbatim>\<open>response_time_seconds\<close> is NULL
  is not skipped: it counts as a response of latency 0, and adds what a response of 0
  seconds adds. That is the fast-response bonus of 2 when the good threshold is at least
  0 (as it is by default); with a negative good threshold it is 0, or \<open>-1\<close> when the
  poor threshold is negative too.
\<close>

theorem null_latency_counts_as_zero_seconds:
  assumes "minus_days now days = Some start_date"
    and "curator_id r = Some cid"
    and "response_timestamp r = Some responded"
    and "start_date \<le> responded" and "responded \<le> now"
    and "response_time_seconds r = None"
  shows "r \<in> set (response_query (r # table) cid start_date now)
       \<and> calculate_response_time_bonus config (r # table) cid days now
           = calculate_response_time_bonus config (r\<lparr>response_time_seconds := Some 0\<rparr> # table) cid days now
       \<and> calculate_response_time_bonus config (r # table) cid days now
           = (if 0 \<le> response_time_good_seconds config then 2
              else if 0 \<le> response_time_poor_seconds config then 0 else - 1)
             + calculate_response_time_bonus config table cid days now"
proof -
  let ?rs = "response_query table cid start_date now"
  let ?adj = "if 0 \<le> response_time_good_seconds config then 2
              else if 0 \<le> response_time_poor_seconds config then 0 else - 1 :: int"
  have q: "response_query (r # table) cid start_date now = r # ?rs"
    "response_query (r\<lparr>response_time_seconds := Some 0\<rparr> # table) cid start_date now
             = r\<lparr>response_time_seconds := Some 0\<rparr> # ?rs"
    using assms by (simp_all add: response_query_def in_window_def)
  have "bonus_loop config (r # ?rs) 0 = bonus_loop config ?rs ?adj"
    using assms by simp
  moreover have "bonus_loop config (r\<lparr>response_time_seconds := Some 0\<rparr> # ?rs) 0
          = bonus_loop config ?rs ?adj"
    by simp
  moreover have "bonus_loop config ?rs ?adj = ?adj + bonus_loop config ?rs 0"
    by (rule bonus_loop_shift)
  ultimately show ?thesis
    using q by (simp add: bonus_is_loop [OF assms(1)])
qed

theorem null_latency_counts_as_zero_seconds_witness:
  "minus_days demo_now 30 = Some (seconds 1697408000)
   \<and> curator_id (demo_response (demo_now - seconds 30) None) = Some 1
   \<and> response_timestamp (demo_response (demo_now - seconds 30) None) = Some (demo_now - seconds 30)
   \<and> seconds 1697408000 \<le> demo_now - seconds 30 \<and> demo_now - seconds 30 \<le> demo_now
   \<and> response_time_seconds (demo_response (demo_now - seconds 30) None) = None
   \<and> calculate_response_time_bonus default_rating_config
        [demo_response (demo_now - seconds 30) None] 1 30 demo_now = 2"
proof -
  have h: "curator_id (demo_response (demo_now - seconds 30) None) = Some 1"
    "response_timestamp (demo_response (demo_now - seconds 30) None) = Some (demo_now - seconds 30)"
    "seconds 1697408000 \<le> demo_now - seconds 30" "demo_now - seconds 30 \<le> demo_now"
    "response_time_seconds (demo_response (demo_now - seconds 30) None) = None"
    by (simp_all add: demo_response_def seconds_def demo_now_def usec_per_second_def)
  have good: "0 \<le> response_time_good_seconds default_rating_config"
    by (simp add: default_rating_config_def)
  have empty: "calculate_response_time_bonus default_rating_config [] 1 30 demo_now = 0"
    by (simp add: calculate_response_time_bonus_def response_query_def demo_window)
  show ?thesis
    using null_latency_counts_as_zero_seconds [OF demo_window h, of "[]" default_rating_config]
      h demo_window empty good by simp
qed

text \<open>
  C10 as stated fails on the bonus: the thresholds are stored as they are posted, and
  with a good threshold of \<open>-1\<close> the response without latency adds 0, not 2; with both
  thresholds at \<open>-1\<close> it subtracts 1.
\<close>

theorem null_latency_bonus_counterexample:
  "calculate_response_time_bonus (default_rating_config\<lparr>response_time_good_seconds := - 1\<rparr>)
     [demo_response (demo_now - seconds 30) None] 1 30 demo_now = 0
   \<and> calculate_response_time_bonus
     (default_rating_config\<lparr>response_time_good_seconds := - 1, response_time_poor_seconds := - 1\<rparr>)
     [demo_response (demo_now - seconds 30) None] 1 30 demo_now = - 1"
  by (simp add: calculate_response_time_bonus_def clock_defs response_query_def in_window_def
      demo_response_def default_rating_config_def)

subsection \<open>Total score\<close>

lemma score_loop_base:
  "fst (score_loop config as base counts) =
     base + (\<Sum>a\<leftarrow>as. activity_points config (act_type a))"
  by (induction as arbitrary: base counts) (auto simp: activity_points_def)

lemma score_loop_base_pair:
  "score_loop config as base counts = (b, c) \<Longrightarrow>
     b = base + (\<Sum>a\<leftarrow>as. activity_points config (act_type a))"
  using score_loop_base [of config as base counts] by simp

text \<open>
  C7. The total score returned is \<open>max 0 (base + bonus)\<close>, so never negative, and the
  base score and the response bonus are returned beside it unfloored: when the window
  can be computed, they are the sum of the points of the curator's activities in the
  window and the response-time adjustment.
\<close>

theorem score_floored_at_zero:
  "total_score (calculate_curator_score config acts table cid days now)
     = max 0 (base_score (calculate_curator_score config acts table cid days now)
              + response_bonus (calculate_curator_score config acts table cid days now))
   \<and> 0 \<le> total_score (calculate_curator_score config acts table cid days now)
   \<and> (\<forall>start_date. minus_days now days = Some start_date \<longrightarrow>
        base_score (calculate_curator_score config acts table cid days now)
          = (\<Sum>a\<leftarrow>activity_query acts cid start_date now. activity_points config (act_type a))
      \<and> response_bonus (calculate_curator_score config acts table cid days now)
          = calculate_response_time_bonus config table cid days now)"
  unfolding calculate_curator_score_def
  by (auto simp: Let_def split: option.splits prod.splits dest: score_loop_base_pair)

theorem score_floored_at_zero_witness:
  "minus_days demo_now 30 = Some (seconds 1697408000)
   \<and> total_score (calculate_curator_score default_rating_config
        [\<lparr>act_curator_id = 1, act_type = ''reaction'', act_timestamp = Some (demo_now - seconds 60)\<rparr>]
        [demo_response (demo_now - seconds 20) (Some 400),
         demo_response (demo_now - seconds 10) (Some 500)] 1 30 demo_now) = 0
   \<and> base_score (calculate_curator_score default_rating_config
        [\<lparr>act_curator_id = 1, act_type = ''reaction'', act_timestamp = Some (demo_now - seconds 60)\<rparr>]
        [demo_response (demo_now - seconds 20) (Some 400),
         demo_response (demo_now - seconds 10) (Some 500)] 1 30 demo_now) = 1
   \<and> response_bonus (calculate_curator_score default_rating_config
        [\<lparr>act_curator_id = 1, act_type = ''reaction'', act_timestamp = Some (demo_now - seconds 60)\<rparr>]
        [demo_response (demo_now - seconds 20) (Some 400),
         demo_response (demo_now - seconds 10) (Some 500)] 1 30 demo_now) = - 2"
  using score_floored_at_zero [of default_rating_config
        "[\<lparr>act_curator_id = 1, act_type = ''reaction'', act_timestamp = Some (demo_now - seconds 60)\<rparr>]"
        "[demo_response (demo_now - seconds 20) (Some 400),
          demo_response (demo_now - seconds 10) (Some 500)]" 1 30 demo_now]
  by (simp add: clock_defs activity_query_def in_window_def activity_points_def
      calculate_response_time_bonus_def response_query_def demo_response_def
      default_rating_config_def)

subsection \<open>Rating bands\<close>

lemma find_rating_Some: "find_rating ts s = Some r \<Longrightarrow> r \<in> set ts \<and> min_score r \<le> s"
  by (induction ts) (auto split: if_splits)

lemma sorted_desc_last:
  "sorted (map (\<lambda>r. - min_score r) ts) \<Longrightarrow> r \<in> set ts \<Longrightarrow> min_score (last ts) \<le> min_score r"
  by (induction ts) auto

lemma find_rating_mono:
  "sorted (map (\<lambda>r. - min_score r) ts) \<Longrightarrow> s1 \<le> s2 \<Longrightarrow> find_rating ts s1 = Some b1 \<Longrightarrow>
     \<exists>b2. find_rating ts s2 = Some b2 \<and> min_score b1 \<le> min_score b2"
proof (induction ts)
  case Nil
  then show ?case by simp
next
  case (Cons t ts)
  show ?case
  proof (cases "min_score t \<le> s2")
    case True
    have "b1 \<in> set (t # ts)"
      using Cons.prems(3) find_rating_Some by blast
    then have "min_score b1 \<le> min_score t"
      using Cons.prems(1) by auto
    with True show ?thesis by simp
  next
    case False
    with Cons.prems have "find_rating ts s1 = Some b1"
      by (auto split: if_splits)
    with Cons False show ?thesis by auto
  qed
qed

lemma select_rating_mono:
  assumes "sorted (map (\<lambda>r. - min_score r) ts)" and "ts \<noteq> []" and "s1 \<le> s2"
  shows "\<exists>b1 b2. select_rating ts s1 = Inr b1 \<and> select_rating ts s2 = Inr b2
            \<and> min_score b1 \<le> min_score b2"
proof (cases "find_rating ts s1")
  case None
  show ?thesis
  proof (cases "find_rating ts s2")
    case low: None
    with None assms show ?thesis by (simp add: select_rating_def)
  next
    case (Some b2)
    then have "b2 \<in> set ts"
      using find_rating_Some by blast
    with Some None assms sorted_desc_last [of ts b2] show ?thesis
      by (simp add: select_rating_def)
  qed
next
  case (Some b1)
  from find_rating_mono [OF assms(1) assms(3) Some] obtain b2 where
    "find_rating ts s2 = Some b2" "min_score b1 \<le> min_score b2" by blast
  with Some show ?thesis by (simp add: select_rating_def)
qed

lemma load_sorted: "sorted (map (\<lambda>r. - min_score r) (load_rating_thresholds rows))"
  by (simp add: load_rating_thresholds_def order_by_min_score_desc_def Let_def)

lemma load_nonempty: "load_rating_thresholds rows \<noteq> []"
  by (auto simp add: load_rating_thresholds_def order_by_min_score_desc_def Let_def
      default_ratings_def)

lemma load_default: "load_rating_thresholds [] = default_ratings"
  by (simp add: load_rating_thresholds_def order_by_min_score_desc_def default_ratings_def)

text \<open>
  C8. With the thresholds as the rating system loads them (highest minimum first, the
  default bands when none is configured), every score has a band, and a higher score
  never gets a band with a lower minimum.
\<close>

theorem rating_band_monotonic:
  assumes "s1 < s2"
  shows "\<exists>b1 b2. select_rating (load_rating_thresholds rows) s1 = Inr b1
           \<and> select_rating (load_rating_thresholds rows) s2 = Inr b2
           \<and> min_score b1 \<le> min_score b2"
  using select_rating_mono [OF load_sorted load_nonempty, of s1 s2 rows] assms by simp

theorem rating_band_monotonic_witness:
  "(49 :: int) < 50
   \<and> select_rating (load_rating_thresholds []) 49
       = Inr \<lparr>rating_name = ''good'', min_score = 35, color = ''#3b82f6''\<rparr>
   \<and> select_rating (load_rating_thresholds []) 50
       = Inr \<lparr>rating_name = ''excellent'', min_score = 50, color = ''#22c55e''\<rparr>
   \<and> (35 :: int) \<le> 50"
  using rating_band_monotonic [of 49 50 "[]"]
  by (simp add: load_default default_ratings_def select_rating_def)

subsection \<open>Leaderboard\<close>

lemma select_rating_Inr: "ts \<noteq> [] \<Longrightarrow> \<exists>b. select_rating ts s = Inr b"
  by (simp add: select_rating_def split: option.splits)

lemma get_curator_rating_Inr:
  assumes "ts \<noteq> []"
  shows "\<exists>r. get_curator_rating ts config acts table cid days now = Inr r
           \<and> cr_score r = total_score (calculate_curator_score config acts table cid days now)"
proof -
  obtain b where "select_rating ts
      (total_score (calculate_curator_score config acts table cid days now)) = Inr b"
    using select_rating_Inr [OF assms] by blast
  then show ?thesis by (simp add: get_curator_rating_def Let_def)
qed

lemma rate_curators_Inr:
  assumes "ts \<noteq> []"
  shows "\<exists>es. rate_curators ts config acts table days now cs = Inr es
           \<and> map le_curator es = cs
           \<and> map le_score es
               = map (\<lambda>c. total_score (calculate_curator_score config acts table (cur_id c) days now)) cs"
proof (induction cs)
  case Nil
  then show ?case by simp
next
  case (Cons c cs)
  from get_curator_rating_Inr [OF assms, of config acts table "cur_id c" days now]
  obtain r where r: "get_curator_rating ts config acts table (cur_id c) days now = Inr r"
    "cr_score r = total_score (calculate_curator_score config acts table (cur_id c) days now)"
    by blast
  from Cons obtain es where es: "rate_curators ts config acts table days now cs = Inr es"
    "map le_curator es = cs"
    "map le_score es
       = map (\<lambda>c. total_score (calculate_curator_score config acts table (cur_id c) days now)) cs"
    by blast
  show ?case using r es by simp
qed

lemma filter_through_map:
  "map f es = cs \<Longrightarrow> map g es = map h cs \<Longrightarrow>
     map f (filter (\<lambda>e. g e = k) es) = filter (\<lambda>c. h c = k) cs"
proof (induction es arbitrary: cs)
  case Nil
  then show ?case by simp
next
  case (Cons e es)
  then show ?case by (cases cs) auto
qed

text \<open>
  C9 (as amended). The leaderboard rates every active curator, sorts the entries by
  total score in descending order, and returns the first \<open>limit\<close> of them (all of them
  when there are fewer). Entries with equal scores stay in the order in which the query
  returned their curators: the curator id plays no part.
\<close>

theorem leaderboard_order:
  fixes rows config acts table curator_table days now
  defines "score \<equiv>
      \<lambda>c. total_score (calculate_curator_score config acts table (cur_id c) days now)"
  defines "full \<equiv> get_top_curators (load_rating_thresholds rows) config acts table
                     curator_table (int (length curator_table)) days now"
  assumes "0 \<le> limit"
  shows "get_top_curators (load_rating_thresholds rows) config acts table curator_table
           limit days now = take (nat limit) full
       \<and> mset (map le_curator full) = mset (filter cur_is_active curator_table)
       \<and> (\<forall>e\<in>set full. le_score e = score (le_curator e))
       \<and> sorted_wrt (\<lambda>a b. le_score a \<ge> le_score b) full
       \<and> (\<forall>k. map le_curator (filter (\<lambda>e. le_score e = k) full)
                = filter (\<lambda>c. score c = k) (filter cur_is_active curator_table))"
proof -
  let ?cs = "filter cur_is_active curator_table"
  let ?T = "load_rating_thresholds rows"
  from rate_curators_Inr [OF load_nonempty, of rows config acts table days now ?cs]
  obtain es where es: "rate_curators ?T config acts table days now ?cs = Inr es"
    "map le_curator es = ?cs" "map le_score es = map score ?cs"
    unfolding score_def by blast
  let ?s = "sort_key (\<lambda>x. - le_score x) es"
  have len: "length es \<le> length curator_table"
    using es(2) length_filter_le [of cur_is_active curator_table] by (metis length_map)
  have full: "full = ?s"
    using es(1) len by (simp add: full_def get_top_curators_def slice_to_def)
  have out: "get_top_curators ?T config acts table curator_table limit days now
               = take (nat limit) ?s"
    using es(1) assms(3) by (simp add: get_top_curators_def slice_to_def)
  have perm: "mset (map le_curator ?s) = mset ?cs"
    using es(2) by (metis mset_map mset_sort)
  have sc: "\<forall>e\<in>set es. le_score e = score (le_curator e)"
  proof
    fix e assume "e \<in> set es"
    then obtain i where i: "i < length es" "es ! i = e"
      by (auto simp: in_set_conv_nth)
    have "le_score e = map le_score es ! i" using i by simp
    also have "\<dots> = map score (map le_curator es) ! i" using es(2,3) by simp
    also have "\<dots> = score (le_curator e)" using i by simp
    finally show "le_score e = score (le_curator e)" .
  qed
  have srt: "sorted_wrt (\<lambda>a b. le_score a \<ge> le_score b) ?s"
    using sorted_sort_key [of "\<lambda>x. - le_score x" es] by (simp add: sorted_map)
  have stab: "map le_curator (filter (\<lambda>e. le_score e = k) ?s) = filter (\<lambda>c. score c = k) ?cs"
    for k
  proof -
    have "filter (\<lambda>e. - le_score e = - k) ?s = filter (\<lambda>e. - le_score e = - k) es"
      by (rule sort_key_stable)
    then have "filter (\<lambda>e. le_score e = k) ?s = filter (\<lambda>e. le_score e = k) es" by simp
    then show ?thesis using filter_through_map [OF es(2) es(3), of k] by simp
  qed
  show ?thesis using full out perm sc srt stab by simp
qed

lemmas leaderboard_defs =
  get_top_curators_def load_default default_ratings_def get_curator_rating_def
  calculate_curator_score_def clock_defs activity_query_def in_window_def
  calculate_response_time_bonus_def response_query_def select_rating_def slice_to_def
  demo_curators_def default_rating_config_def zero_counts_def

theorem leaderboard_order_witness:
  "(0 :: int) \<le> 2
   \<and> map (cur_id \<circ> le_curator)
        (get_top_curators (load_rating_thresholds []) default_rating_config
           [\<lparr>act_curator_id = 3, act_type = ''message'', act_timestamp = Some (demo_now - seconds 60)\<rparr>]
           [] demo_curators 2 30 demo_now) = [3, 2]
   \<and> map le_score
        (get_top_curators (load_rating_thresholds []) default_rating_config
           [\<lparr>act_curator_id = 3, act_type = ''message'', act_timestamp = Some (demo_now - seconds 60)\<rparr>]
           [] demo_curators 2 30 demo_now) = [3, 0]"
  using leaderboard_order [of 2 "[]" default_rating_config
      "[\<lparr>act_curator_id = 3, act_type = ''message'', act_timestamp = Some (demo_now - seconds 60)\<rparr>]"
      "[]" demo_curators 30 demo_now]
  by (simp add: leaderboard_defs)

text \<open>
  C9 as stated fails on the tie-break: three active curators with equal scores, returned
  by the query in the order 2, 1, 3 (the query has no ORDER BY), come out in that order,
  which is sorted by curator id in neither direction. With a limit of 10 the three
  entries are all that is returned.
\<close>

theorem leaderboard_tie_counterexample:
  "length
     (get_top_curators (load_rating_thresholds []) default_rating_config [] []
        demo_curators 10 30 demo_now) = 3
   \<and> map le_score
     (get_top_curators (load_rating_thresholds []) default_rating_config [] []
        demo_curators 10 30 demo_now) = [0, 0, 0]
   \<and> map (cur_id \<circ> le_curator)
     (get_top_curators (load_rating_thresholds []) default_rating_config [] []
        demo_curators 10 30 demo_now) = [2, 1, 3]
   \<and> \<not> sorted [2, 1, 3 :: nat] \<and> \<not> sorted (rev [2, 1, 3 :: nat])"
  by (simp add: leaderboard_defs)

section \<open>Response tracking\<close>

subsection \<open>Seconds of a difference\<close>





text \<open>The latencies of the examples, and one beyond \<open>2 ^ 34\<close> seconds.\<close>

lemma demo_latency:
  "int_total_seconds 45000000 = 45"
  "int_total_seconds 30000000 = 30"
  "int_total_seconds 20000000 = 20"
  "int_total_seconds 10000000 = 10"
  "int_total_seconds (- 10000000) = - 10"
  "int_total_seconds (- 600000000) = - 600"
  "int_total_seconds (- 999999) = 0"
  "int_total_seconds 19999999999999999 = 20000000000"
  by (simp_all add: int_total_seconds_def float_seconds_floor_def bit_length.simps Let_def)

subsection \<open>The row a response changes\<close>

lemma find_SomeD: "find P xs = Some x \<Longrightarrow> P x \<and> x \<in> set xs"
  by (induction xs) (auto split: if_splits)

lemma find_append_Some: "find P xs = Some x \<Longrightarrow> find P (xs @ ys) = Some x"
  by (induction xs) (auto split: if_splits)


lemma map_update_first: "(\<And>x. g (f x) = g x) \<Longrightarrow> map g (update_first P f xs) = map g xs"
  by (induction xs) auto

lemma length_update_first [simp]: "length (update_first P f xs) = length xs"
  by (induction xs) auto


lemma update_naive:
  "\<not> stored_aware env \<Longrightarrow> update_response_tracking env st m c ty now = st"
  by (simp add: update_response_tracking_def datetime_minus_def created_at_aware_def
      split: option.splits)




lemma update_fields [simp]:
  "checks (update_response_tracking env st m c ty now) = checks st"
  "notifications (update_response_tracking env st m c ty now) = notifications st"
  "next_tracking_id (update_response_tracking env st m c ty now) = next_tracking_id st"
  "map mention_message_id (trackings (update_response_tracking env st m c ty now))
     = map mention_message_id (trackings st)"
  by (simp_all add: update_response_tracking_def map_update_first record_response_def
      split: option.splits)

lemma send_notification_fields [simp]:
  "checks (send_notification env st t now) = checks st"
  "next_tracking_id (send_notification env st t now) = next_tracking_id st"
  "trackings (send_notification env st t now) = trackings st"
  by (auto simp: send_notification_def split: option.splits)

lemma check_trackings [simp]: "trackings (notification_check env st tid now) = trackings st"
  by (auto simp: notification_check_def Let_def split: option.splits)

lemma run_Nil [simp]: "run env st [] = st"
  by (simp add: run_def)

lemma run_Cons [simp]: "run env st (ev # events) = run env (step env st ev) events"
  by (simp add: run_def)

subsection \<open>One record per message\<close>

lemma find_mention_None:
  "find (\<lambda>t. mention_message_id t = k) xs = None \<longleftrightarrow> k \<notin> set (map mention_message_id xs)"
  by (induction xs) auto

lemma create_distinct:
  "distinct (map mention_message_id (trackings st)) \<Longrightarrow>
   distinct (map mention_message_id (trackings (create_response_tracking env st m server now)))"
  by (auto simp: create_response_tracking_def Let_def find_mention_None split: option.splits)

lemma step_distinct:
  "distinct (map mention_message_id (trackings st)) \<Longrightarrow>
   distinct (map mention_message_id (trackings (step env st ev)))"
  by (cases ev)
     (auto simp: on_message_def on_reaction_add_def Let_def create_distinct split: option.splits)

lemma run_distinct:
  "distinct (map mention_message_id (trackings st)) \<Longrightarrow>
   distinct (map mention_message_id (trackings (run env st events)))"
  by (induction events arbitrary: st) (auto simp: step_distinct)

lemmas demo_defs =
  demo_env_def demo_message_def empty_state_def seconds_def usec_per_second_def
  on_message_def on_reaction_add_def get_server_by_guild_id_def get_curator_by_discord_id_def
  create_response_tracking_def update_response_tracking_def response_candidate_def
  record_response_def read_timeout_def two_hours_def datetime_minus_def created_at_aware_def
  utcnow_aware_def demo_latency notification_check_def send_notification_def Let_def

text \<open>
  C3. Whatever events the bot handles, the tracking table never holds two records of
  one message id (it holds none to begin with), and opening a record for a message that
  is already tracked leaves the state as it is. (This is \<^verbatim>\<open>create_response_tracking\<close>
  of \<^verbatim>\<open>discord_bot.py\<close>; the superseded \<^verbatim>\<open>track_mention_request\<close> of
  \<^verbatim>\<open>discord_bot_old.py\<close>, which no module imports, inserts without looking.)
\<close>

theorem tracking_created_once:
  assumes "distinct (map mention_message_id (trackings st))"
  shows "distinct (map mention_message_id (trackings (run env st events)))
       \<and> (msg_id m \<in> set (map mention_message_id (trackings st)) \<longrightarrow>
            create_response_tracking env st m server now = st)"
proof -
  have "create_response_tracking env st m server now = st"
    if "msg_id m \<in> set (map mention_message_id (trackings st))"
    using that find_mention_None [of "msg_id m" "trackings st"]
    by (auto simp: create_response_tracking_def split: option.splits)
  with run_distinct [OF assms] show ?thesis by simp
qed

theorem tracking_created_once_witness:
  "distinct (map mention_message_id (trackings (run demo_env empty_state
        [Message (demo_message 1001 42 0 None) True 0])))
   \<and> msg_id (demo_message 1001 42 0 None)
       \<in> set (map mention_message_id (trackings (run demo_env empty_state
             [Message (demo_message 1001 42 0 None) True 0])))
   \<and> create_response_tracking demo_env
        (run demo_env empty_state [Message (demo_message 1001 42 0 None) True 0])
        (demo_message 1001 42 0 None) \<lparr>srv_id = 1, srv_guild_id = 500, srv_is_active = True\<rparr>
        (seconds 5)
       = run demo_env empty_state [Message (demo_message 1001 42 0 None) True 0]
   \<and> map mention_message_id (trackings (run demo_env
        (run demo_env empty_state [Message (demo_message 1001 42 0 None) True 0])
        [Message (demo_message 1001 42 0 None) True (seconds 5)])) = [1001]"
proof -
  have d: "distinct (map mention_message_id (trackings (run demo_env empty_state
        [Message (demo_message 1001 42 0 None) True 0])))"
    by (simp add: demo_defs)
  have k: "msg_id (demo_message 1001 42 0 None)
       \<in> set (map mention_message_id (trackings (run demo_env empty_state
             [Message (demo_message 1001 42 0 None) True 0])))"
    by (simp add: demo_defs)
  have r: "map mention_message_id (trackings (run demo_env
        (run demo_env empty_state [Message (demo_message 1001 42 0 None) True 0])
        [Message (demo_message 1001 42 0 None) True (seconds 5)])) = [1001]"
    by (simp add: demo_defs)
  show ?thesis
    using tracking_created_once [OF d, of demo_env
        "[Message (demo_message 1001 42 0 None) True (seconds 5)]"
        "demo_message 1001 42 0 None"
        "\<lparr>srv_id = 1, srv_guild_id = 500, srv_is_active = True\<rparr>" "seconds 5"] d k r
    by blast
qed

subsection \<open>Notifications\<close>

lemma send_notification_ids:
  "map notice_tracking_id (notifications (send_notification env st t now)) =
     (if notification_channel_found env
         \<and> find (\<lambda>s. srv_id s = server_id t) (servers env) \<noteq> None
         \<and> \<not> stored_aware env
      then map notice_tracking_id (notifications st) @ [rt_id t]
      else map notice_tracking_id (notifications st))"
  by (auto simp: send_notification_def datetime_minus_def utcnow_aware_def split: option.splits)

lemma send_notification_aware: "stored_aware env \<Longrightarrow> send_notification env st t now = st"
  by (simp add: send_notification_def datetime_minus_def utcnow_aware_def split: option.splits)

lemma distinct_fst_remove1:
  "distinct (map fst xs) \<Longrightarrow> (a, b) \<in> set xs \<Longrightarrow>
     distinct (map fst (remove1 (a, b) xs)) \<and> a \<notin> set (map fst (remove1 (a, b) xs))
     \<and> set (map fst (remove1 (a, b) xs)) \<subseteq> set (map fst xs)"
proof (induction xs)
  case Nil
  then show ?case by simp
next
  case (Cons x xs)
  then show ?case by (cases x) (force simp: image_iff)
qed

lemma update_inv: "notify_inv st \<Longrightarrow> notify_inv (update_response_tracking env st m c ty now)"
  by (simp add: notify_inv_def)

lemma create_inv: "notify_inv st \<Longrightarrow> notify_inv (create_response_tracking env st m server now)"
  by (auto simp: notify_inv_def create_response_tracking_def Let_def split: option.splits)

lemma check_inv:
  assumes "notify_inv st"
  shows "notify_inv (notification_check env st tid now)"
proof (cases "find (\<lambda>(i, wake). i = tid \<and> wake \<le> now) (checks st)")
  case None
  with assms show ?thesis by (simp add: notification_check_def)
next
  case (Some task)
  obtain w where task: "task = (tid, w)" "(tid, w) \<in> set (checks st)"
    using find_SomeD [OF Some] by (cases task) auto
  let ?st' = "st\<lparr>checks := remove1 task (checks st)\<rparr>"
  from assms have d: "distinct (map fst (checks st))"
    by (simp add: notify_inv_def)
  note r = distinct_fst_remove1 [OF d task(2)]
  have tid: "tid \<notin> set (map notice_tracking_id (notifications st))" "tid < next_tracking_id st"
    using assms task(2) by (force simp: notify_inv_def)+
  have inv': "notify_inv ?st'"
    using assms r task(1) unfolding notify_inv_def by auto
  show ?thesis
  proof (cases "find (\<lambda>t. rt_id t = tid) (trackings st)")
    case None
    with Some inv' show ?thesis by (simp add: notification_check_def Let_def)
  next
    case found: (Some t)
    then have rt: "rt_id t = tid"
      using find_SomeD by fastforce
    show ?thesis
    proof (cases "is_resolved t")
      case True
      with Some found inv' show ?thesis by (simp add: notification_check_def Let_def)
    next
      case False
      have "notify_inv (send_notification env ?st' t now)"
        using inv' r tid rt task(1) unfolding notify_inv_def
        by (auto simp: send_notification_ids image_iff)
      with Some found False show ?thesis by (simp add: notification_check_def Let_def)
    qed
  qed
qed

lemma step_inv: "notify_inv st \<Longrightarrow> notify_inv (step env st ev)"
  by (cases ev)
     (auto simp: on_message_def on_reaction_add_def Let_def create_inv update_inv check_inv
           split: option.splits)

lemma run_inv: "notify_inv st \<Longrightarrow> notify_inv (run env st events)"
  by (induction events arbitrary: st) (auto simp: step_inv)

lemma empty_inv: "notify_inv empty_state"
  by (simp add: notify_inv_def empty_state_def)

text \<open>Where stored time stamps come back aware, no event sends a notification.\<close>

lemma check_aware:
  "stored_aware env \<Longrightarrow> notifications (notification_check env st tid now) = notifications st"
  by (simp add: notification_check_def Let_def send_notification_aware split: option.splits)

lemma create_notifications [simp]:
  "notifications (create_response_tracking env st m server now) = notifications st"
  by (simp add: create_response_tracking_def Let_def split: option.splits)

lemma step_aware:
  "stored_aware env \<Longrightarrow> notifications (step env st ev) = notifications st"
  by (cases ev)
     (auto simp: on_message_def on_reaction_add_def Let_def check_aware split: option.splits)

lemma run_aware:
  "stored_aware env \<Longrightarrow> notifications (run env st events) = notifications st"
  by (induction events arbitrary: st) (auto simp: step_aware)

text \<open>Where they come back naive, no event changes a record: the table only grows.\<close>

lemma create_appends:
  "\<exists>ys. trackings (create_response_tracking env st m server now) = trackings st @ ys"
  by (simp add: create_response_tracking_def Let_def split: option.splits)

lemma step_naive:
  assumes "\<not> stored_aware env"
  shows "\<exists>ys. trackings (step env st ev) = trackings st @ ys"
proof (cases ev)
  case (Message m is_help now)
  then show ?thesis
    using create_appends [of env st m _ now]
    by (auto simp: on_message_def Let_def update_naive [OF assms] split: option.splits)
next
  case (ReactionAdd m user_id user_bot now)
  then show ?thesis
    by (auto simp: on_reaction_add_def update_naive [OF assms] split: option.splits)
next
  case (Wake tid now)
  then show ?thesis by simp
qed

lemma run_naive_find:
  assumes "\<not> stored_aware env"
  shows "find P (trackings st) = Some t \<Longrightarrow> find P (trackings (run env st events)) = Some t"
proof (induction events arbitrary: st)
  case Nil
  then show ?case by simp
next
  case (Cons ev events)
  from step_naive [OF assms, of st ev] obtain ys where
    "trackings (step env st ev) = trackings st @ ys" by blast
  with Cons.prems have "find P (trackings (step env st ev)) = Some t"
    by (simp add: find_append_Some)
  from Cons.IH [OF this] show ?case by simp
qed

text \<open>
  C1 (as amended). In a state the bot reaches from the empty one, when the check of a
  record wakes up and the record is still unresolved, one notification is sent for the
  record if the notification channel and the record's server are found and the stored
  mention time comes back naive; otherwise none is sent. None was sent for the record
  before, and no later event sends another. The check changes no record (there is no
  escalated state), and a record that has been notified is never resolved: whatever
  events follow, it stays the record it was.
\<close>

theorem notification_once_record_stays_open:
  assumes "st = run env empty_state events"
    and "find (\<lambda>(i, wake). i = tid \<and> wake \<le> now) (checks st) = Some task"
    and "find (\<lambda>t. rt_id t = tid) (trackings st) = Some t"
    and "\<not> is_resolved t"
  shows "trackings (step env st (Wake tid now)) = trackings st
       \<and> tid \<notin> set (map notice_tracking_id (notifications st))
       \<and> map notice_tracking_id (notifications (step env st (Wake tid now)))
           = (if notification_channel_found env
                 \<and> find (\<lambda>s. srv_id s = server_id t) (servers env) \<noteq> None
                 \<and> \<not> stored_aware env
              then map notice_tracking_id (notifications st) @ [tid]
              else map notice_tracking_id (notifications st))
       \<and> (\<forall>later. distinct (map notice_tracking_id
                      (notifications (run env (step env st (Wake tid now)) later))))
       \<and> (\<forall>later. tid \<in> set (map notice_tracking_id
                      (notifications (run env (step env st (Wake tid now)) later))) \<longrightarrow>
             find (\<lambda>u. rt_id u = tid) (trackings (run env (step env st (Wake tid now)) later))
               = Some t)"
proof -
  have inv: "notify_inv st"
    using assms(1) run_inv [OF empty_inv] by simp
  obtain w where task: "task = (tid, w)" "(tid, w) \<in> set (checks st)"
    using find_SomeD [OF assms(2)] by (cases task) auto
  have rt: "rt_id t = tid"
    using find_SomeD [OF assms(3)] by simp
  have fresh: "tid \<notin> set (map notice_tracking_id (notifications st))"
    using inv task(2) by (force simp: notify_inv_def)
  have ids: "map notice_tracking_id (notifications (step env st (Wake tid now)))
           = (if notification_channel_found env
                 \<and> find (\<lambda>s. srv_id s = server_id t) (servers env) \<noteq> None
                 \<and> \<not> stored_aware env
              then map notice_tracking_id (notifications st) @ [tid]
              else map notice_tracking_id (notifications st))"
    using assms(2-4) rt send_notification_ids [of env "st\<lparr>checks := remove1 task (checks st)\<rparr>" t now]
    by (simp add: notification_check_def Let_def)
  have later: "distinct (map notice_tracking_id
      (notifications (run env (step env st (Wake tid now)) later)))" for later
  proof -
    have "notify_inv (step env st (Wake tid now))"
      using inv by (rule step_inv)
    then have "notify_inv (run env (step env st (Wake tid now)) later)"
      by (rule run_inv)
    then show ?thesis by (simp add: notify_inv_def)
  qed
  have stays: "find (\<lambda>u. rt_id u = tid) (trackings (run env (step env st (Wake tid now)) later))
               = Some t"
    if n: "tid \<in> set (map notice_tracking_id
                      (notifications (run env (step env st (Wake tid now)) later)))" for later
  proof (cases "stored_aware env")
    case True
    have "notifications st = []"
      using assms(1) run_aware [OF True, of empty_state events] by (simp add: empty_state_def)
    then have "notifications (run env (step env st (Wake tid now)) later) = []"
      using run_aware [OF True, of "step env st (Wake tid now)" later]
        step_aware [OF True, of st "Wake tid now"] by simp
    with n show ?thesis by simp
  next
    case False
    have "find (\<lambda>u. rt_id u = tid) (trackings (step env st (Wake tid now))) = Some t"
      using assms(3) by simp
    then show ?thesis by (rule run_naive_find [OF False])
  qed
  show ?thesis using fresh ids later stays by simp
qed

theorem notification_once_record_stays_open_witness:
  "find (\<lambda>(i, wake). i = 1 \<and> wake \<le> seconds 600)
      (checks (run demo_env empty_state [Message (demo_message 1001 42 0 None) True 0]))
     = Some (1, seconds 600)
   \<and> map is_resolved
       (trackings (run demo_env empty_state [Message (demo_message 1001 42 0 None) True 0]))
     = [False]
   \<and> map notice_tracking_id (notifications (step demo_env
        (run demo_env empty_state [Message (demo_message 1001 42 0 None) True 0])
        (Wake 1 (seconds 600)))) = [1]
   \<and> map notice_tracking_id (notifications (run demo_env (step demo_env
        (run demo_env empty_state [Message (demo_message 1001 42 0 None) True 0])
        (Wake 1 (seconds 600)))
        [Message (demo_message 1002 77 (seconds 700) None) False (seconds 700)])) = [1]
   \<and> map is_resolved (trackings (run demo_env (step demo_env
        (run demo_env empty_state [Message (demo_message 1001 42 0 None) True 0])
        (Wake 1 (seconds 600)))
        [Message (demo_message 1002 77 (seconds 700) None) False (seconds 700)])) = [False]"
proof -
  let ?st = "run demo_env empty_state [Message (demo_message 1001 42 0 None) True 0]"
  let ?t = "\<lparr>rt_id = 1, server_id = 1, mention_message_id = 1001, mention_timestamp = 0,
      mention_author_id = 42, is_resolved = False, curator_id = None,
      response_message_id = None, response_timestamp = None, response_type = None,
      response_time_seconds = None\<rparr>"
  let ?later = "[Message (demo_message 1002 77 (seconds 700) None) False (seconds 700)]"
  have h1: "find (\<lambda>(i, wake). i = 1 \<and> wake \<le> seconds 600) (checks ?st) = Some (1, seconds 600)"
    by (simp add: demo_defs)
  have h2: "find (\<lambda>t. rt_id t = 1) (trackings ?st) = Some ?t"
    by (simp add: demo_defs)
  have h3: "\<not> is_resolved ?t" by simp
  have st: "map is_resolved (trackings ?st) = [False]"
    by (simp add: demo_defs)
  have ids: "map notice_tracking_id
      (notifications (step demo_env ?st (Wake 1 (seconds 600)))) = [1]"
    by (simp add: demo_defs)
  have after: "map notice_tracking_id
      (notifications (run demo_env (step demo_env ?st (Wake 1 (seconds 600))) ?later)) = [1]"
    by (simp add: demo_defs)
  note inst = notification_once_record_stays_open [OF refl h1 h2 h3]
  from inst have all: "\<forall>later. 1 \<in> set (map notice_tracking_id
        (notifications (run demo_env (step demo_env ?st (Wake 1 (seconds 600))) later))) \<longrightarrow>
      find (\<lambda>u. rt_id u = 1)
        (trackings (run demo_env (step demo_env ?st (Wake 1 (seconds 600))) later)) = Some ?t"
    by blast
  have mem: "1 \<in> set (map notice_tracking_id
      (notifications (run demo_env (step demo_env ?st (Wake 1 (seconds 600))) ?later)))"
    unfolding after by simp
  from all mem
  have "find (\<lambda>u. rt_id u = 1)
      (trackings (run demo_env (step demo_env ?st (Wake 1 (seconds 600))) ?later)) = Some ?t"
    by blast
  moreover have "length (trackings (run demo_env (step demo_env ?st (Wake 1 (seconds 600)))
      ?later)) = 1"
    by (simp add: demo_defs)
  ultimately have res: "map is_resolved
      (trackings (run demo_env (step demo_env ?st (Wake 1 (seconds 600))) ?later)) = [False]"
    by (cases "trackings (run demo_env (step demo_env ?st (Wake 1 (seconds 600))) ?later)")
       (auto split: if_splits)
  show ?thesis
    using h1 st ids after res by blast
qed

text \<open>
  C1 as stated fails on the notification: a help request at second 0 is still unresolved
  at second 600, and no notification is sent for it where the notification channel is not
  found, nor where the stored mention time comes back aware (the minutes waited cannot
  be computed).
\<close>

theorem notification_not_sent_counterexample:
  "map is_resolved (trackings (run (demo_env\<lparr>notification_channel_found := False\<rparr>) empty_state
      [Message (demo_message 1001 42 0 None) True 0, Wake 1 (seconds 600)])) = [False]
   \<and> notifications (run (demo_env\<lparr>notification_channel_found := False\<rparr>) empty_state
      [Message (demo_message 1001 42 0 None) True 0, Wake 1 (seconds 600)]) = []
   \<and> map is_resolved (trackings (run (demo_env\<lparr>stored_aware := True\<rparr>) empty_state
      [Message (demo_message 1001 42 0 None) True 0, Wake 1 (seconds 600)])) = [False]
   \<and> notifications (run (demo_env\<lparr>stored_aware := True\<rparr>) empty_state
      [Message (demo_message 1001 42 0 None) True 0, Wake 1 (seconds 600)]) = []"
  by (simp add: demo_defs)

subsection \<open>Latency of a resolved record\<close>












subsection \<open>Who may resolve a record\<close>




subsection \<open>Reply references\<close>





end
